theory Spec2Isabelle
  imports Complex_Main "HOL-Library.Sublist"
begin

section \<open>Touchpad controls: exporter scripts and key descriptors\<close>

subsection \<open>JavaScript values\<close>

text \<open>
  The exporter scripts work on values read with \<^verbatim>\<open>JSON.parse\<close> and on the object
  \<^verbatim>\<open>buildLayout\<close> returns. The values are modelled as JSON data, with the non-finite
  numbers and \<^verbatim>\<open>undefined\<close> that the scripts test for. A finite number is an exact
  rational: JavaScript's numbers are IEEE doubles, and the rounding error of double
  arithmetic is not part of this model. \<open>JInfinity True\<close> is \<^verbatim>\<open>Infinity\<close>,
  \<open>JInfinity False\<close> is \<^verbatim>\<open>-Infinity\<close>. \<open>JFunction\<close> stands for a function
  value, which the scripts can only meet as a prototype method. An object is the list of
  its own properties in enumeration order: plain data as \<^verbatim>\<open>JSON.parse\<close> and object
  literals build it, with distinct keys, none of them the special name
  \<^verbatim>\<open>__proto__\<close>.
\<close>

datatype jsval =
    JUndefined
  | JNull
  | JBool bool
  | JNum rat
  | JNaN
  | JInfinity bool
  | JStr string
  | JFunction string
  | JArr "jsval list"
  | JObj "(string \<times> jsval) list"

text \<open>Truthiness, as \<^verbatim>\<open>!x\<close>, \<^verbatim>\<open>x || y\<close> and \<^verbatim>\<open>x && y\<close> use it.\<close>

fun truthy :: "jsval \<Rightarrow> bool" where
  "truthy JUndefined = False"
| "truthy JNull = False"
| "truthy (JBool b) = b"
| "truthy (JNum v) = (v \<noteq> 0)"
| "truthy JNaN = False"
| "truthy (JStr s) = (s \<noteq> [])"
| "truthy v = True"

definition js_or :: "jsval \<Rightarrow> jsval \<Rightarrow> jsval" where
  "js_or a b = (if truthy a then a else b)"

text \<open>Reading a property of \<^verbatim>\<open>null\<close> or \<^verbatim>\<open>undefined\<close> throws a TypeError.\<close>

fun is_nullish :: "jsval \<Rightarrow> bool" where
  "is_nullish JUndefined = True"
| "is_nullish JNull = True"
| "is_nullish v = False"

text \<open>
  \<^verbatim>\<open>value.name\<close> on a value that is not nullish, for the property names the scripts
  read (\<^verbatim>\<open>buttons layout metrics id role type keys x y size\<close>). An object gives its own
  property or \<^verbatim>\<open>undefined\<close>; of these names only \<^verbatim>\<open>keys\<close> exists on a prototype
  (\<^verbatim>\<open>Array.prototype.keys\<close>); strings, numbers, booleans and functions have none of them.
\<close>

fun js_prop :: "jsval \<Rightarrow> string \<Rightarrow> jsval" where
  "js_prop (JObj kvs) name = (case map_of kvs name of Some v \<Rightarrow> v | None \<Rightarrow> JUndefined)"
| "js_prop (JArr vs) name =
     (if name = ''keys'' then JFunction ''Array.prototype.keys'' else JUndefined)"
| "js_prop v name = JUndefined"

text \<open>\<^verbatim>\<open>typeof v === "object"\<close>: objects, arrays and \<^verbatim>\<open>null\<close>.\<close>

fun typeof_object :: "jsval \<Rightarrow> bool" where
  "typeof_object JNull = True"
| "typeof_object (JArr vs) = True"
| "typeof_object (JObj kvs) = True"
| "typeof_object v = False"

subsection \<open>The layout regular expression of the exporters\<close>

text \<open>
  Both \<^verbatim>\<open>scripts/export_gold_configs.js\<close> (lines 40-43) and
  \<^verbatim>\<open>scripts/export_layout_snapshots.js\<close> (lines 75-78) define
  \<^verbatim>\<open>
  const extractLayout = (content) => {
      const match = content.match(/layout:\\s*\"([^\"]+)\"/);
      return match ? match[1] : "auto";
  };
  \<close>
  Inside a regular expression literal the two characters \<^verbatim>\<open>\\\<close> are an escaped
  backslash: they match one literal backslash. The \<^verbatim>\<open>s*\<close> after them is the letter
  s repeated, \<^verbatim>\<open>\"\<close> is a double quote, and the group is one or more characters
  other than a double quote. The pieces below are exactly the constructs this literal uses:
  a single character or negated single character, taken once, taken greedily zero or more
  times, or taken greedily one or more times inside the capture group. A file's content
  is the list of its characters; the expression names ASCII characters only.
\<close>

datatype cls = Ch char | NotCh char

fun accepts :: "cls \<Rightarrow> char \<Rightarrow> bool" where
  "accepts (Ch c) x = (x = c)"
| "accepts (NotCh c) x = (x \<noteq> c)"

datatype piece = Once cls | Star cls | GroupPlus cls

text \<open>
  Backtracking match of a sequence of pieces at the start of a string. The result is the
  text of the capture group (empty when the pieces hold no group). A greedy quantifier
  first tries to take one more character and falls back to stopping when the rest of the
  pattern then fails, as the ECMAScript matcher does.
\<close>

fun rmatch :: "piece list \<Rightarrow> string \<Rightarrow> string option" where
  "rmatch [] s = Some []"
| "rmatch (Once c # ps) [] = None"
| "rmatch (Once c # ps) (x # xs) = (if accepts c x then rmatch ps xs else None)"
| "rmatch (Star c # ps) [] = rmatch ps []"
| "rmatch (Star c # ps) (x # xs) =
     (if accepts c x
      then (case rmatch (Star c # ps) xs of Some g \<Rightarrow> Some g | None \<Rightarrow> rmatch ps (x # xs))
      else rmatch ps (x # xs))"
| "rmatch (GroupPlus c # ps) [] = None"
| "rmatch (GroupPlus c # ps) (x # xs) =
     (if accepts c x
      then (case rmatch (GroupPlus c # ps) xs of
              Some g \<Rightarrow> Some (x # g)
            | None \<Rightarrow> (case rmatch ps xs of Some _ \<Rightarrow> Some [x] | None \<Rightarrow> None))
      else None)"

text \<open>\<^verbatim>\<open>String.prototype.match\<close> with a non-global expression: the leftmost start
  position at which the pattern matches wins; \<open>None\<close> is JavaScript's \<^verbatim>\<open>null\<close>.\<close>

fun js_match :: "piece list \<Rightarrow> string \<Rightarrow> string option" where
  "js_match re [] = rmatch re []"
| "js_match re (x # xs) =
     (case rmatch re (x # xs) of Some g \<Rightarrow> Some g | None \<Rightarrow> js_match re xs)"

definition backslash :: char where
  "backslash = CHR 0x5C"

definition dquote :: char where
  "dquote = CHR 0x22"

text \<open>The literal \<^verbatim>\<open>/layout:\\s*\"([^\"]+)\"/\<close>, piece by piece.\<close>

definition layout_regex :: "piece list" where
  "layout_regex =
     map (\<lambda>c. Once (Ch c)) ''layout:'' @
     [Once (Ch backslash), Star (Ch (CHR ''s'')), Once (Ch dquote),
      GroupPlus (NotCh dquote), Once (Ch dquote)]"

text \<open>\<^verbatim>\<open>extractLayout\<close> of \<^verbatim>\<open>export_gold_configs.js\<close>.\<close>

definition extractLayout :: "string \<Rightarrow> string" where
  "extractLayout content =
     (case js_match layout_regex content of Some g \<Rightarrow> g | None \<Rightarrow> ''auto'')"

text \<open>\<^verbatim>\<open>extractLayout\<close> of \<^verbatim>\<open>export_layout_snapshots.js\<close>, the same text.\<close>

definition extractLayout_snapshots :: "string \<Rightarrow> string" where
  "extractLayout_snapshots content =
     (case js_match layout_regex content of Some g \<Rightarrow> g | None \<Rightarrow> ''auto'')"

text \<open>
  The per-file body of \<^verbatim>\<open>main\<close> in \<^verbatim>\<open>export_gold_configs.js\<close> (lines 83-98):
  \<^verbatim>\<open>
  const bindings = extractJson(content, "touchBindings");
  const actionMeta = extractJson(content, "touchActionMeta") || {};
  const layout = extractLayout(content);
  if (!bindings) { console.warn(...); return; }
  const config = { layout, bindings, action_meta: actionMeta, source_output: ... };
  \<close>
  The two results of \<^verbatim>\<open>extractJson\<close> (a \<^verbatim>\<open>JSON.parse\<close> of text cut out of the
  file) and the relative path are parameters. \<open>None\<close> is a file that is skipped.
\<close>

record gold_config =
  layout :: string
  bindings :: jsval
  action_meta :: jsval
  source_output :: string

definition gold_config_of :: "string \<Rightarrow> jsval \<Rightarrow> jsval \<Rightarrow> string \<Rightarrow> gold_config option" where
  "gold_config_of content touchBindings touchActionMeta source =
     (let actionMeta = js_or touchActionMeta (JObj []);
          lay = extractLayout content
      in if \<not> truthy touchBindings then None
         else Some \<lparr>layout = lay, bindings = touchBindings, action_meta = actionMeta,
                     source_output = source\<rparr>)"

subsection \<open>Rounding in the snapshot exporter\<close>

text \<open>
  \<^verbatim>\<open>Math.round\<close> gives the nearest integer, a tie going towards positive infinity.
\<close>

definition math_round :: "rat \<Rightarrow> rat" where
  "math_round v = of_int \<lfloor>v + 1 / 2\<rfloor>"

text \<open>
  \<^verbatim>\<open>
  const roundValue = (value) => {
      if (typeof value !== "number" || !Number.isFinite(value)) return value;
      return Math.round(value * 10) / 10;
  };
  \<close>
\<close>

fun roundValue :: "jsval \<Rightarrow> jsval" where
  "roundValue (JNum v) = JNum (math_round (v * 10) / 10)"
| "roundValue v = v"

text \<open>
  \<^verbatim>\<open>
  const roundDeep = (value) => {
      if (Array.isArray(value)) return value.map(roundDeep);
      if (value && typeof value === "object") {
          const out = {};
          Object.entries(value).forEach(([key, val]) => { out[key] = roundDeep(val); });
          return out;
      }
      return roundValue(value);
  };
  \<close>
\<close>

fun roundDeep :: "jsval \<Rightarrow> jsval" where
  "roundDeep (JArr vs) = JArr (map roundDeep vs)"
| "roundDeep (JObj kvs) = JObj (map (\<lambda>(k, val). (k, roundDeep val)) kvs)"
| "roundDeep v = roundValue v"

text \<open>
  The fallback body of \<^verbatim>\<open>summarizeLayout\<close> for one button (lines 104-112). \<open>None\<close> is
  the TypeError of reading a property of a nullish array entry.
\<close>

definition summarizeButton :: "jsval \<Rightarrow> jsval option" where
  "summarizeButton btn =
     (if is_nullish btn then None
      else Some (JObj
        [(''id'', js_or (js_prop btn ''id'') JNull),
         (''role'', js_or (js_prop btn ''role'') JNull),
         (''type'', js_or (js_prop btn ''type'')
            (if truthy (js_prop btn ''keys'') \<and> typeof_object (js_prop btn ''keys'')
             then JStr ''joystick'' else JStr ''button'')),
         (''keys'', js_or (js_prop btn ''keys'') JNull),
         (''x'', roundValue (js_prop btn ''x'')),
         (''y'', roundValue (js_prop btn ''y'')),
         (''size'', roundValue (js_prop btn ''size''))]))"

text \<open>\<^verbatim>\<open>Array.isArray(layoutConfig.buttons) ? layoutConfig.buttons : []\<close>.\<close>

definition buttons_of :: "jsval \<Rightarrow> jsval list" where
  "buttons_of layoutConfig = (case js_prop layoutConfig ''buttons'' of JArr bs \<Rightarrow> bs | _ \<Rightarrow> [])"

text \<open>
  \<^verbatim>\<open>summarizeLayout\<close> (lines 97-114). When the library exposes
  \<^verbatim>\<open>TouchpadControls._internal.summarizeLayout\<close> the script returns what that function
  returns; the library is not part of the sources, so the hook is the parameter
  \<open>internal\<close>, \<open>None\<close> when the library has no such function.
\<close>

definition summarizeLayout :: "(jsval \<Rightarrow> jsval option) option \<Rightarrow> jsval \<Rightarrow> jsval option" where
  "summarizeLayout internal layoutConfig =
     (case internal of
        Some f \<Rightarrow> f layoutConfig
      | None \<Rightarrow>
          if is_nullish layoutConfig then None
          else (case those (map summarizeButton (buttons_of layoutConfig)) of
                  None \<Rightarrow> None
                | Some bs \<Rightarrow>
                    Some (JObj [(''layout'', js_or (js_prop layoutConfig ''layout'') JNull),
                                (''buttons'', JArr bs)])))"

text \<open>
  The entry stored per viewport (lines 198-201):
  \<^verbatim>\<open>{ summary: summarizeLayout(layoutConfig), metrics: roundDeep(layoutConfig.metrics) }\<close>.
\<close>

definition snapshot_entry :: "(jsval \<Rightarrow> jsval option) option \<Rightarrow> jsval \<Rightarrow> jsval option" where
  "snapshot_entry internal layoutConfig =
     (case summarizeLayout internal layoutConfig of
        None \<Rightarrow> None
      | Some summary \<Rightarrow>
          if is_nullish layoutConfig then None
          else Some (JObj [(''summary'', summary),
                           (''metrics'', roundDeep (js_prop layoutConfig ''metrics''))]))"

text \<open>
  What "rounded to one decimal" means for a value: a number is a whole number of tenths.
  \<open>all_one_decimal\<close> asks it of every number inside arrays and objects.
\<close>

definition is_tenth :: "rat \<Rightarrow> bool" where
  "is_tenth q = (of_int \<lfloor>q * 10\<rfloor> = q * 10)"

fun one_decimal :: "jsval \<Rightarrow> bool" where
  "one_decimal (JNum q) = is_tenth q"
| "one_decimal v = True"

fun all_one_decimal :: "jsval \<Rightarrow> bool" where
  "all_one_decimal (JArr vs) = list_all all_one_decimal vs"
| "all_one_decimal (JObj kvs) = list_all (\<lambda>(k, val). all_one_decimal val) kvs"
| "all_one_decimal v = one_decimal v"

subsection \<open>Key descriptors\<close>

text \<open>
  The library file \<^verbatim>\<open>touchpad-controls.js\<close>, which defines
  \<^verbatim>\<open>resolveKeyDescriptor\<close>, is not among the sources; its key mapping test (the
  script that ends with \<^verbatim>\<open>console.log("All key mapping tests passed.")\<close>) is. The resolver below is therefore written from the
  specification (section 4.1) and from the values the test expects, and the test itself is
  modelled from its source further down.

  A key descriptor \<^verbatim>\<open>{ code, key, keyCode, location }\<close>; a location the library
  omits is 0, the standard location.
\<close>

record key_descriptor =
  code :: string
  key :: string
  keyCode :: nat
  location :: nat

text \<open>
  Modelled from the spec: the alias table of the absent \<^verbatim>\<open>resolveKeyDescriptor\<close>.
  "\<^verbatim>\<open>Space\<close>/alias \<^verbatim>\<open>Spacebar\<close>", "\<^verbatim>\<open>Esc\<close> is an alias for \<^verbatim>\<open>Escape\<close>",
  "Modifier bare names (\<^verbatim>\<open>Shift\<close>, \<^verbatim>\<open>Control\<close>, \<^verbatim>\<open>Alt\<close>, \<^verbatim>\<open>Meta\<close>) resolve to
  their left physical variant by default", and "Aliasing is a finite, explicit table".
\<close>

definition key_aliases :: "(string \<times> string) list" where
  "key_aliases =
     [(''Spacebar'', ''Space''), (''Esc'', ''Escape''),
      (''Shift'', ''ShiftLeft''), (''Control'', ''ControlLeft''),
      (''Alt'', ''AltLeft''), (''Meta'', ''MetaLeft'')]"

definition canonical_name :: "string \<Rightarrow> string" where
  "canonical_name name = (case map_of key_aliases name of Some long \<Rightarrow> long | None \<Rightarrow> name)"

text \<open>
  \<open>strip_prefix p s\<close> is the rest of \<open>s\<close> after the prefix \<open>p\<close>, when \<open>s\<close> starts with it.
\<close>

definition strip_prefix :: "string \<Rightarrow> string \<Rightarrow> string option" where
  "strip_prefix p s = (if prefix p s then Some (drop (length p) s) else None)"

text \<open>
  Modelled from the spec: the letter, digit and numpad digit rules of the absent resolver.
  "Letter/digit keys (\<^verbatim>\<open>KeyA\<close>..\<^verbatim>\<open>KeyZ\<close>, \<^verbatim>\<open>Digit0\<close>..\<^verbatim>\<open>Digit9\<close>) map
  \<^verbatim>\<open>code\<close> to the input verbatim, \<^verbatim>\<open>key\<close> to the lowercase letter or digit character,
  \<^verbatim>\<open>keyCode\<close> to the legacy ASCII-derived value" (65 to 90 for letters, 48 to 57 for
  digits). "Numpad keys (\<^verbatim>\<open>Numpad0\<close>..\<^verbatim>\<open>Numpad9\<close>, ...) resolve with
  \<^verbatim>\<open>location: 3\<close>"; the test expects \<^verbatim>\<open>keyCode\<close> 96 for \<^verbatim>\<open>Numpad0\<close> and 105 for
  \<^verbatim>\<open>Numpad9\<close>, the digit character's code plus 48.
\<close>

definition letter_key :: "string \<Rightarrow> key_descriptor option" where
  "letter_key name =
     (case strip_prefix ''Key'' name of
        Some [c] \<Rightarrow>
          (let n = (of_char c :: nat)
           in if 65 \<le> n \<and> n \<le> 90
              then Some \<lparr>code = name, key = [char_of (n + 32)], keyCode = n, location = 0\<rparr>
              else None)
      | _ \<Rightarrow> None)"

definition digit_key :: "string \<Rightarrow> key_descriptor option" where
  "digit_key name =
     (case strip_prefix ''Digit'' name of
        Some [c] \<Rightarrow>
          (let n = (of_char c :: nat)
           in if 48 \<le> n \<and> n \<le> 57
              then Some \<lparr>code = name, key = [c], keyCode = n, location = 0\<rparr>
              else None)
      | _ \<Rightarrow> None)"

definition numpad_digit_key :: "string \<Rightarrow> key_descriptor option" where
  "numpad_digit_key name =
     (case strip_prefix ''Numpad'' name of
        Some [c] \<Rightarrow>
          (let n = (of_char c :: nat)
           in if 48 \<le> n \<and> n \<le> 57
              then Some \<lparr>code = name, key = [c], keyCode = n + 48, location = 3\<rparr>
              else None)
      | _ \<Rightarrow> None)"

text \<open>
  Modelled from the spec: the static table of the absent resolver, holding the names that
  the specification or the test spells out. Arrow keys "map identically
  (\<^verbatim>\<open>code=key=ArrowX\<close>), with the historical numeric codes 37-40"; explicit
  "\<^verbatim>\<open>...Left\<close>/\<^verbatim>\<open>...Right\<close> forms resolve to the matching side and \<^verbatim>\<open>location\<close> 1 or
  2 respectively"; "\<^verbatim>\<open>NumpadEnter\<close>'s \<^verbatim>\<open>key\<close>/\<^verbatim>\<open>keyCode\<close> match plain
  \<^verbatim>\<open>Enter\<close>'s"; punctuation, editing, navigation and function keys "each map to one
  fixed descriptor from a static table". The numeric codes are the ones the test expects;
  a modifier's code is given there for one side and is taken for both.
\<close>

definition same_key :: "string \<Rightarrow> nat \<Rightarrow> string \<times> key_descriptor" where
  "same_key name n = (name, \<lparr>code = name, key = name, keyCode = n, location = 0\<rparr>)"

definition char_key :: "string \<Rightarrow> string \<Rightarrow> nat \<Rightarrow> string \<times> key_descriptor" where
  "char_key name k n = (name, \<lparr>code = name, key = k, keyCode = n, location = 0\<rparr>)"

definition modifier_keys :: "string \<Rightarrow> nat \<Rightarrow> (string \<times> key_descriptor) list" where
  "modifier_keys family n =
     [(family @ ''Left'', \<lparr>code = family @ ''Left'', key = family, keyCode = n, location = 1\<rparr>),
      (family @ ''Right'', \<lparr>code = family @ ''Right'', key = family, keyCode = n, location = 2\<rparr>)]"

definition static_keys :: "(string \<times> key_descriptor) list" where
  "static_keys =
     [same_key ''ArrowLeft'' 37, same_key ''ArrowUp'' 38,
      same_key ''ArrowRight'' 39, same_key ''ArrowDown'' 40,
      char_key ''Space'' '' '' 32,
      same_key ''Enter'' 13, same_key ''Escape'' 27] @
     modifier_keys ''Shift'' 16 @ modifier_keys ''Control'' 17 @
     modifier_keys ''Alt'' 18 @ modifier_keys ''Meta'' 91 @
     [same_key ''Backspace'' 8, same_key ''Delete'' 46,
      same_key ''Home'' 36, same_key ''PageUp'' 33] @
     map (\<lambda>(name, n). same_key name n)
       (zip [''F1'', ''F2'', ''F3'', ''F4'', ''F5'', ''F6'', ''F7'', ''F8'', ''F9'', ''F10'',
             ''F11'', ''F12''] [112 ..< 124]) @
     [(''NumpadAdd'', \<lparr>code = ''NumpadAdd'', key = ''+'', keyCode = 107, location = 3\<rparr>),
      (''NumpadEnter'', \<lparr>code = ''NumpadEnter'', key = ''Enter'', keyCode = 13, location = 3\<rparr>),
      char_key ''Minus'' ''-'' 189, char_key ''Equal'' ''='' 187,
      char_key ''BracketLeft'' ''['' 219, char_key ''Backquote'' ''`'' 192]"

text \<open>
  Modelled from the spec: \<^verbatim>\<open>resolveKeyDescriptor\<close> of the absent
  \<^verbatim>\<open>touchpad-controls.js\<close>. "\<^verbatim>\<open>resolve(name: string) -> KeyDescriptor\<close>, total over a
  fixed vocabulary of accepted names; fails (or returns an unresolved sentinel) for names
  outside that vocabulary": \<open>None\<close> is that failure. A name is first replaced by its long
  form, then looked up by the rules and the table.
\<close>

definition resolveKeyDescriptor :: "string \<Rightarrow> key_descriptor option" where
  "resolveKeyDescriptor name =
     (let long = canonical_name name
      in case letter_key long of
           Some d \<Rightarrow> Some d
         | None \<Rightarrow>
             (case digit_key long of
                Some d \<Rightarrow> Some d
              | None \<Rightarrow>
                  (case numpad_digit_key long of
                     Some d \<Rightarrow> Some d
                   | None \<Rightarrow> map_of static_keys long)))"

text \<open>
  The numpad names the specification and the test name: \<^verbatim>\<open>Numpad0\<close> to
  \<^verbatim>\<open>Numpad9\<close>, \<^verbatim>\<open>NumpadAdd\<close> and \<^verbatim>\<open>NumpadEnter\<close>.
\<close>

definition numpad_names :: "string list" where
  "numpad_names = map (\<lambda>c. ''Numpad'' @ [c]) ''0123456789'' @ [''NumpadAdd'', ''NumpadEnter'']"

text \<open>
  The key mapping test, from its source. A case gives the input
  and the expected \<^verbatim>\<open>code\<close>, \<^verbatim>\<open>key\<close> and \<^verbatim>\<open>keyCode\<close>, and an expected
  \<^verbatim>\<open>location\<close> only where the source writes one.
\<close>

record key_case =
  input :: string
  expected_code :: string
  expected_key :: string
  expected_keyCode :: nat
  expected_location :: "nat option"

definition kc :: "string \<Rightarrow> string \<Rightarrow> string \<Rightarrow> nat \<Rightarrow> key_case" where
  "kc i c k n = \<lparr>input = i, expected_code = c, expected_key = k, expected_keyCode = n,
                  expected_location = None\<rparr>"

definition kcl :: "string \<Rightarrow> string \<Rightarrow> string \<Rightarrow> nat \<Rightarrow> nat \<Rightarrow> key_case" where
  "kcl i c k n l = \<lparr>input = i, expected_code = c, expected_key = k, expected_keyCode = n,
                    expected_location = Some l\<rparr>"

definition cases :: "key_case list" where
  "cases =
    [kc ''KeyA'' ''KeyA'' ''a'' 65,
     kc ''Digit9'' ''Digit9'' ''9'' 57,
     kc ''ArrowLeft'' ''ArrowLeft'' ''ArrowLeft'' 37,
     kc ''ArrowUp'' ''ArrowUp'' ''ArrowUp'' 38,
     kc ''Space'' ''Space'' '' '' 32,
     kc ''Spacebar'' ''Space'' '' '' 32,
     kc ''Enter'' ''Enter'' ''Enter'' 13,
     kc ''Esc'' ''Escape'' ''Escape'' 27,
     kcl ''ShiftLeft'' ''ShiftLeft'' ''Shift'' 16 1,
     kcl ''ShiftRight'' ''ShiftRight'' ''Shift'' 16 2,
     kcl ''Shift'' ''ShiftLeft'' ''Shift'' 16 1,
     kcl ''ControlLeft'' ''ControlLeft'' ''Control'' 17 1,
     kcl ''Control'' ''ControlLeft'' ''Control'' 17 1,
     kcl ''AltRight'' ''AltRight'' ''Alt'' 18 2,
     kcl ''Alt'' ''AltLeft'' ''Alt'' 18 1,
     kcl ''MetaLeft'' ''MetaLeft'' ''Meta'' 91 1,
     kcl ''Meta'' ''MetaLeft'' ''Meta'' 91 1,
     kc ''Backspace'' ''Backspace'' ''Backspace'' 8,
     kc ''Delete'' ''Delete'' ''Delete'' 46,
     kc ''Home'' ''Home'' ''Home'' 36,
     kc ''PageUp'' ''PageUp'' ''PageUp'' 33,
     kc ''F1'' ''F1'' ''F1'' 112,
     kc ''F12'' ''F12'' ''F12'' 123,
     kcl ''Numpad0'' ''Numpad0'' ''0'' 96 3,
     kcl ''Numpad9'' ''Numpad9'' ''9'' 105 3,
     kcl ''NumpadAdd'' ''NumpadAdd'' ''+'' 107 3,
     kcl ''NumpadEnter'' ''NumpadEnter'' ''Enter'' 13 3,
     kc ''Minus'' ''Minus'' ''-'' 189,
     kc ''Equal'' ''Equal'' ''='' 187,
     kc ''BracketLeft'' ''BracketLeft'' ''['' 219,
     kc ''Backquote'' ''Backquote'' ''`'' 192]"

text \<open>
  \<^verbatim>\<open>
  cases.forEach((testCase) => {
      const result = resolveKeyDescriptor(testCase.input);
      ["code", "key", "keyCode", "location"].forEach((field) => {
          if (testCase[field] === undefined) return;
          if (result[field] !== testCase[field]) failures.push({ input: testCase.input, field, ... });
      });
  });
  \<close>
  The resolver is a parameter. A failure is recorded as the input and the field; a resolver
  that returns nothing makes \<^verbatim>\<open>result[field]\<close> throw, recorded as \<^verbatim>\<open>TypeError\<close>.
\<close>

definition case_failures :: "(string \<Rightarrow> key_descriptor option) \<Rightarrow> key_case \<Rightarrow> string list" where
  "case_failures resolve testCase =
     (case resolve (input testCase) of
        None \<Rightarrow> [''TypeError'']
      | Some result \<Rightarrow>
          (if code result \<noteq> expected_code testCase then [''code''] else []) @
          (if key result \<noteq> expected_key testCase then [''key''] else []) @
          (if keyCode result \<noteq> expected_keyCode testCase then [''keyCode''] else []) @
          (case expected_location testCase of
             None \<Rightarrow> []
           | Some l \<Rightarrow> if location result \<noteq> l then [''location''] else []))"

definition failures :: "(string \<Rightarrow> key_descriptor option) \<Rightarrow> (string \<times> string) list" where
  "failures resolve =
     concat (map (\<lambda>testCase. map (\<lambda>field. (input testCase, field)) (case_failures resolve testCase))
               cases)"

text \<open>
  A layout object, its summary and its rounded metrics, used to run the exporter's
  functions on concrete data.
\<close>

definition example_layoutConfig :: jsval where
  "example_layoutConfig =
     JObj [(''layout'', JStr ''runner''),
           (''buttons'', JArr
              [JObj [(''id'', JStr ''primary''), (''role'', JStr ''primary''),
                     (''keys'', JStr ''Space''),
                     (''x'', JNum (6279 / 20)), (''y'', JNum (23719 / 40)),
                     (''size'', JNum (252 / 5))],
               JObj [(''role'', JStr ''move''),
                     (''keys'', JObj [(''left'', JStr ''ArrowLeft''), (''right'', JStr ''ArrowRight'')]),
                     (''x'', JNum (243 / 5)), (''y'', JNum (- 1 / 4)), (''size'', JNum (306 / 5))]]),
           (''metrics'', JObj
              [(''width'', JNum 360), (''height'', JNum 640),
               (''safeArea'', JObj [(''top'', JNum 0), (''right'', JNum 0),
                                    (''bottom'', JNum 0), (''left'', JNum 0)]),
               (''edgePadding'', JNum 18), (''spacing'', JNum (1079 / 100))])]"

definition example_summary :: jsval where
  "example_summary =
     JObj [(''layout'', JStr ''runner''),
           (''buttons'', JArr
              [JObj [(''id'', JStr ''primary''), (''role'', JStr ''primary''),
                     (''type'', JStr ''button''), (''keys'', JStr ''Space''),
                     (''x'', JNum (314)), (''y'', JNum (593)),
                     (''size'', JNum (252 / 5))],
               JObj [(''id'', JNull), (''role'', JStr ''move''), (''type'', JStr ''joystick''),
                     (''keys'', JObj [(''left'', JStr ''ArrowLeft''), (''right'', JStr ''ArrowRight'')]),
                     (''x'', JNum (243 / 5)), (''y'', JNum (- 1 / 5)), (''size'', JNum (306 / 5))]])]"

definition example_metrics :: jsval where
  "example_metrics =
     JObj [(''width'', JNum 360), (''height'', JNum 640),
           (''safeArea'', JObj [(''top'', JNum 0), (''right'', JNum 0),
                                (''bottom'', JNum 0), (''left'', JNum 0)]),
           (''edgePadding'', JNum 18), (''spacing'', JNum (54 / 5))]"

section \<open>Properties\<close>

subsection \<open>The layout regular expression never sees ordinary text\<close>

lemma once_ch:
  "rmatch (Once (Ch c) # ps) s = Some g \<Longrightarrow> \<exists>xs. s = c # xs \<and> rmatch ps xs = Some g"
  by (cases s) (auto split: if_splits)

lemma rmatch_layout_prefix:
  assumes "rmatch layout_regex s = Some g"
  shows "prefix (''layout:'' @ [backslash]) s"
  using assms unfolding layout_regex_def
  by (auto dest!: once_ch)

lemma js_match_sublist:
  "js_match layout_regex s = Some g \<Longrightarrow> sublist (''layout:'' @ [backslash]) s"
proof (induction s)
  case Nil
  then show ?case using rmatch_layout_prefix[of "[]" g] by simp
next
  case (Cons x xs)
  show ?case
  proof (cases "rmatch layout_regex (x # xs)")
    case None
    with Cons have "sublist (''layout:'' @ [backslash]) xs" by simp
    then show ?thesis by (simp add: sublist_Cons_right)
  next
    case (Some h)
    then have "prefix (''layout:'' @ [backslash]) (x # xs)" by (rule rmatch_layout_prefix)
    then show ?thesis by (rule prefix_imp_sublist)
  qed
qed

lemma js_match_none:
  "\<not> sublist (''layout:'' @ [backslash]) content \<Longrightarrow> js_match layout_regex content = None"
  using js_match_sublist by (cases "js_match layout_regex content") auto

text \<open>
  The expression is not dead: a file that really holds a backslash after \<^verbatim>\<open>layout:\<close>
  has its name captured.
\<close>

lemma extractLayout_backslash_example:
  "extractLayout (''{ layout:'' @ [backslash] @ ''s'' @ [dquote] @ ''runner'' @ [dquote] @ '' }'')
     = ''runner''"
  by (simp add: extractLayout_def layout_regex_def backslash_def dquote_def)

text \<open>
  C10. In both exporters \<^verbatim>\<open>extractLayout\<close> returns \<^verbatim>\<open>"auto"\<close> for every file content
  that has no backslash right after \<^verbatim>\<open>layout:\<close>, which is every content where the layout
  is written as ordinary text such as \<^verbatim>\<open>layout: "name"\<close>: the regular expression asks
  for a literal backslash and then the letter s, not for whitespace. The layout field of the
  exported gold config is then \<^verbatim>\<open>"auto"\<close> as well, whatever name the file holds.
\<close>

theorem extractLayout_ordinary_text_auto:
  assumes "\<not> sublist (''layout:'' @ [backslash]) content"
  shows "extractLayout content = ''auto''
       \<and> extractLayout_snapshots content = ''auto''
       \<and> map_option layout (gold_config_of content (JObj kvs) meta src) = Some ''auto''"
  using js_match_none[OF assms]
  by (simp add: extractLayout_def extractLayout_snapshots_def gold_config_of_def)

theorem extractLayout_ordinary_text_auto_witness:
  "\<not> sublist (''layout:'' @ [backslash])
       (''TouchpadControls.create({ layout: '' @ [dquote] @ ''dual-stick'' @ [dquote] @ '' });'')
   \<and> extractLayout
       (''TouchpadControls.create({ layout: '' @ [dquote] @ ''dual-stick'' @ [dquote] @ '' });'')
       = ''auto''
   \<and> extractLayout_snapshots
       (''TouchpadControls.create({ layout: '' @ [dquote] @ ''dual-stick'' @ [dquote] @ '' });'')
       = ''auto''
   \<and> map_option layout
       (gold_config_of
          (''TouchpadControls.create({ layout: '' @ [dquote] @ ''dual-stick'' @ [dquote] @ '' });'')
          (JObj [(''primary'', JStr ''Space'')]) JNull ''outputs/game_touch_embedded.html'')
       = Some ''auto''"
proof -
  have h: "\<not> sublist (''layout:'' @ [backslash])
       (''TouchpadControls.create({ layout: '' @ [dquote] @ ''dual-stick'' @ [dquote] @ '' });'')"
    by code_simp
  show ?thesis
    using h extractLayout_ordinary_text_auto[OF h, of "[(''primary'', JStr ''Space'')]" JNull
      "''outputs/game_touch_embedded.html''"]
    by simp
qed

subsection \<open>Rounding to one decimal\<close>

lemma math_round_of_int: "math_round (of_int n) = of_int n"
proof -
  have "\<lfloor>(of_int n :: rat) + 1 / 2\<rfloor> = n"
    by (rule floor_unique) simp_all
  then show ?thesis by (simp add: math_round_def)
qed

lemma math_round_idem: "math_round (math_round v) = math_round v"
  unfolding math_round_def[of v] by (rule math_round_of_int)

lemma math_round_tenth: "math_round (math_round v / 10 * 10) = math_round v"
  by (simp add: math_round_idem)

lemma roundValue_idem: "roundValue (roundValue v) = roundValue v"
  by (cases v) (simp_all add: math_round_idem)

lemma roundDeep_idem: "roundDeep (roundDeep v) = roundDeep v"
  by (induction v rule: roundDeep.induct) (auto simp: math_round_idem)

lemma is_tenth_round: "is_tenth (math_round v / 10)"
  by (simp add: is_tenth_def math_round_def)

lemma one_decimal_roundValue: "one_decimal (roundValue v)"
  by (cases v) (simp_all add: is_tenth_round)

lemma all_one_decimal_roundDeep: "all_one_decimal (roundDeep v)"
  by (induction v rule: roundDeep.induct) (auto simp: is_tenth_round list_all_iff)

lemma is_tenth_fixed: "is_tenth q \<Longrightarrow> math_round (q * 10) / 10 = q"
proof -
  assume "is_tenth q"
  then have "of_int \<lfloor>q * 10\<rfloor> = q * 10" unfolding is_tenth_def .
  then have e: "q * 10 = of_int \<lfloor>q * 10\<rfloor>" by (rule sym)
  have "math_round (q * 10) = q * 10"
    by (subst (1 2) e) (rule math_round_of_int)
  then show ?thesis by simp
qed

lemma one_decimal_fixed: "one_decimal v \<Longrightarrow> roundValue v = v"
  by (cases v) (simp_all add: is_tenth_fixed)

lemma all_one_decimal_fixed: "all_one_decimal v \<Longrightarrow> roundDeep v = v"
proof (induction v rule: roundDeep.induct)
  case (1 vs)
  then show ?case by (simp add: list_all_iff map_idI)
next
  case (2 kvs)
  then have "\<And>p. p \<in> set kvs \<Longrightarrow> (case p of (k, val) \<Rightarrow> (k, roundDeep val)) = p"
    by (auto simp: list_all_iff)
  then show ?case by (simp add: map_idI)
qed (simp_all add: is_tenth_fixed)

lemma those_map_Some:
  "those (map f xs) = Some ys \<Longrightarrow> list_all2 (\<lambda>x y. f x = Some y) xs ys"
  by (induction xs arbitrary: ys) (auto split: option.splits)

lemma summarizeButton_fields:
  assumes "summarizeButton btn = Some sb"
  shows "js_prop sb ''x'' = roundValue (js_prop btn ''x'')"
    and "js_prop sb ''y'' = roundValue (js_prop btn ''y'')"
    and "js_prop sb ''size'' = roundValue (js_prop btn ''size'')"
  using assms by (auto simp: summarizeButton_def split: if_splits)

lemma summarizeLayout_buttons:
  assumes "summarizeLayout None layoutConfig = Some s"
  shows "list_all2 (\<lambda>btn sb. summarizeButton btn = Some sb) (buttons_of layoutConfig) (buttons_of s)"
  using assms
  by (auto simp: summarizeLayout_def buttons_of_def[of s] split: if_splits option.splits
           dest: those_map_Some)

lemma summarizeLayout_rounds:
  assumes "summarizeLayout None layoutConfig = Some s"
  shows "map (\<lambda>sb. (js_prop sb ''x'', js_prop sb ''y'', js_prop sb ''size'')) (buttons_of s) =
         map (\<lambda>btn. (roundValue (js_prop btn ''x''), roundValue (js_prop btn ''y''),
                      roundValue (js_prop btn ''size''))) (buttons_of layoutConfig)"
proof -
  from summarizeLayout_buttons[OF assms]
  have "list_all2 (\<lambda>btn sb. summarizeButton btn = Some sb) (buttons_of layoutConfig) (buttons_of s)" .
  then show ?thesis
    by (induction rule: list_all2_induct) (simp_all add: summarizeButton_fields)
qed

lemma snapshot_entry_metrics:
  assumes "snapshot_entry internal layoutConfig = Some e"
  shows "js_prop e ''metrics'' = roundDeep (js_prop layoutConfig ''metrics'')"
  using assms by (auto simp: snapshot_entry_def split: option.splits if_splits)

text \<open>
  C9. The snapshot exporter's rounding maps a finite number \<open>v\<close> to
  \<^verbatim>\<open>Math.round(v * 10) / 10\<close>. \<^verbatim>\<open>roundValue\<close> and \<^verbatim>\<open>roundDeep\<close> are idempotent,
  every number inside the result of \<^verbatim>\<open>roundDeep\<close> has one decimal, and a value whose
  numbers already have one decimal passes through \<^verbatim>\<open>roundDeep\<close> unchanged. The
  fallback \<^verbatim>\<open>summarizeLayout\<close> gives each button summary the \<^verbatim>\<open>roundValue\<close> of the
  button's \<^verbatim>\<open>x\<close>, \<^verbatim>\<open>y\<close> and \<^verbatim>\<open>size\<close>, and the snapshot entry holds the
  \<^verbatim>\<open>roundDeep\<close> of the layout's metrics. Numbers are exact rationals here.
\<close>

theorem snapshot_rounding_one_decimal:
  "roundValue (JNum v) = JNum (of_int \<lfloor>v * 10 + 1 / 2\<rfloor> / 10)
   \<and> roundValue (roundValue w) = roundValue w
   \<and> roundDeep (roundDeep w) = roundDeep w
   \<and> all_one_decimal (roundDeep w)
   \<and> (all_one_decimal r \<longrightarrow> roundDeep r = r)
   \<and> (summarizeLayout None layoutConfig = Some s \<longrightarrow>
        map (\<lambda>sb. (js_prop sb ''x'', js_prop sb ''y'', js_prop sb ''size'')) (buttons_of s) =
        map (\<lambda>btn. (roundValue (js_prop btn ''x''), roundValue (js_prop btn ''y''),
                     roundValue (js_prop btn ''size''))) (buttons_of layoutConfig))
   \<and> (snapshot_entry internal layoutConfig = Some e \<longrightarrow>
        js_prop e ''metrics'' = roundDeep (js_prop layoutConfig ''metrics'')
        \<and> all_one_decimal (js_prop e ''metrics''))"
proof -
  have a: "roundValue (JNum v) = JNum (of_int \<lfloor>v * 10 + 1 / 2\<rfloor> / 10)"
    by (simp add: math_round_def)
  have b: "snapshot_entry internal layoutConfig = Some e \<longrightarrow>
        js_prop e ''metrics'' = roundDeep (js_prop layoutConfig ''metrics'')
        \<and> all_one_decimal (js_prop e ''metrics'')"
    using snapshot_entry_metrics[of internal layoutConfig e] all_one_decimal_roundDeep
    by simp
  show ?thesis
    using a b roundValue_idem roundDeep_idem all_one_decimal_roundDeep all_one_decimal_fixed
      summarizeLayout_rounds
    by blast
qed

theorem snapshot_rounding_one_decimal_witness:
  "all_one_decimal example_metrics
   \<and> roundDeep example_metrics = example_metrics
   \<and> summarizeLayout None example_layoutConfig = Some example_summary
   \<and> map (\<lambda>sb. (js_prop sb ''x'', js_prop sb ''y'', js_prop sb ''size''))
        (buttons_of example_summary) =
      map (\<lambda>btn. (roundValue (js_prop btn ''x''), roundValue (js_prop btn ''y''),
                   roundValue (js_prop btn ''size''))) (buttons_of example_layoutConfig)
   \<and> snapshot_entry None example_layoutConfig =
        Some (JObj [(''summary'', example_summary), (''metrics'', example_metrics)])
   \<and> js_prop (JObj [(''summary'', example_summary), (''metrics'', example_metrics)]) ''metrics'' =
        roundDeep (js_prop example_layoutConfig ''metrics'')
   \<and> all_one_decimal
        (js_prop (JObj [(''summary'', example_summary), (''metrics'', example_metrics)]) ''metrics'')"
proof -
  have h1: "all_one_decimal example_metrics"
    by code_simp
  have h2: "summarizeLayout None example_layoutConfig = Some example_summary"
    by code_simp
  have h3: "snapshot_entry None example_layoutConfig =
        Some (JObj [(''summary'', example_summary), (''metrics'', example_metrics)])"
    by code_simp
  show ?thesis
    using h1 h2 h3
      snapshot_rounding_one_decimal[of "6279 / 20" example_layoutConfig example_metrics
        example_layoutConfig example_summary None
        "JObj [(''summary'', example_summary), (''metrics'', example_metrics)]"]
    by blast
qed

subsection \<open>Key aliases and numpad keys\<close>

text \<open>The modelled resolver passes the repository's key mapping test.\<close>

lemma key_mapping_test_passes: "failures resolveKeyDescriptor = []"
  by code_simp



lemma alias_not_numpad:
  "prefix ''Numpad'' name \<Longrightarrow> map_of key_aliases name = None"
  by (auto simp: prefix_def key_aliases_def)

lemma static_numpad:
  "prefix ''Numpad'' name \<Longrightarrow> map_of static_keys name = Some d \<Longrightarrow> location d = 3"
  by (auto simp: prefix_def static_keys_def same_key_def char_key_def modifier_keys_def upt_rec
           split: if_splits)

lemma numpad_not_letter: "prefix ''Numpad'' name \<Longrightarrow> letter_key name = None"
  by (auto simp: letter_key_def strip_prefix_def prefix_def)

lemma numpad_not_digit: "prefix ''Numpad'' name \<Longrightarrow> digit_key name = None"
  by (auto simp: digit_key_def strip_prefix_def prefix_def)

lemma numpad_digit_location: "numpad_digit_key name = Some d \<Longrightarrow> location d = 3"
  by (auto simp: numpad_digit_key_def Let_def split: option.splits list.splits if_splits)

lemma numpad_location_3:
  assumes p: "prefix ''Numpad'' name" and r: "resolveKeyDescriptor name = Some d"
  shows "location d = 3"
proof -
  have a: "canonical_name name = name"
    using alias_not_numpad[OF p] by (simp add: canonical_name_def)
  from r a numpad_not_letter[OF p] numpad_not_digit[OF p]
  have "numpad_digit_key name = Some d \<or> map_of static_keys name = Some d"
    by (auto simp: resolveKeyDescriptor_def split: option.splits)
  then show ?thesis
    using static_numpad[OF p] numpad_digit_location by blast
qed

text \<open>
  C3. For every alias name in \<^verbatim>\<open>Spacebar\<close>, \<^verbatim>\<open>Esc\<close>, \<^verbatim>\<open>Shift\<close>, \<^verbatim>\<open>Control\<close>,
  \<^verbatim>\<open>Alt\<close>, \<^verbatim>\<open>Meta\<close> the resolver returns exactly the descriptor of the long form:
  \<^verbatim>\<open>Spacebar\<close> gives \<^verbatim>\<open>{code: Space, key: " ", keyCode: 32}\<close>, \<^verbatim>\<open>Esc\<close> gives the
  descriptor of \<^verbatim>\<open>Escape\<close>, a bare modifier gives its \<^verbatim>\<open>...Left\<close> key with location 1,
  and the explicit \<^verbatim>\<open>...Left\<close> and \<^verbatim>\<open>...Right\<close> names give the matching side with
  location 1 and 2.
\<close>

theorem aliases_resolve_to_long_form:
  "map fst key_aliases = [''Spacebar'', ''Esc'', ''Shift'', ''Control'', ''Alt'', ''Meta'']
   \<and> list_all (\<lambda>(alias, long). resolveKeyDescriptor alias = resolveKeyDescriptor long
                  \<and> resolveKeyDescriptor alias \<noteq> None) key_aliases
   \<and> resolveKeyDescriptor ''Spacebar'' =
         Some \<lparr>code = ''Space'', key = '' '', keyCode = 32, location = 0\<rparr>
   \<and> resolveKeyDescriptor ''Spacebar'' = resolveKeyDescriptor ''Space''
   \<and> resolveKeyDescriptor ''Esc'' = resolveKeyDescriptor ''Escape''
   \<and> resolveKeyDescriptor ''Esc'' =
         Some \<lparr>code = ''Escape'', key = ''Escape'', keyCode = 27, location = 0\<rparr>
   \<and> resolveKeyDescriptor ''Shift'' =
         Some \<lparr>code = ''ShiftLeft'', key = ''Shift'', keyCode = 16, location = 1\<rparr>
   \<and> resolveKeyDescriptor ''Control'' =
         Some \<lparr>code = ''ControlLeft'', key = ''Control'', keyCode = 17, location = 1\<rparr>
   \<and> resolveKeyDescriptor ''Alt'' =
         Some \<lparr>code = ''AltLeft'', key = ''Alt'', keyCode = 18, location = 1\<rparr>
   \<and> resolveKeyDescriptor ''Meta'' =
         Some \<lparr>code = ''MetaLeft'', key = ''Meta'', keyCode = 91, location = 1\<rparr>
   \<and> map (\<lambda>name. map_option (\<lambda>d. (code d, key d, location d)) (resolveKeyDescriptor name))
         [''ShiftLeft'', ''ShiftRight'', ''ControlLeft'', ''ControlRight'',
          ''AltLeft'', ''AltRight'', ''MetaLeft'', ''MetaRight''] =
       [Some (''ShiftLeft'', ''Shift'', 1), Some (''ShiftRight'', ''Shift'', 2),
        Some (''ControlLeft'', ''Control'', 1), Some (''ControlRight'', ''Control'', 2),
        Some (''AltLeft'', ''Alt'', 1), Some (''AltRight'', ''Alt'', 2),
        Some (''MetaLeft'', ''Meta'', 1), Some (''MetaRight'', ''Meta'', 2)]"
  by code_simp

text \<open>
  C4. Every numpad key name the resolver accepts resolves with location 3, in particular
  \<^verbatim>\<open>Numpad0\<close> to \<^verbatim>\<open>Numpad9\<close>, \<^verbatim>\<open>NumpadAdd\<close> and \<^verbatim>\<open>NumpadEnter\<close>; the
  \<^verbatim>\<open>key\<close> and \<^verbatim>\<open>keyCode\<close> of \<^verbatim>\<open>NumpadEnter\<close> are those of plain \<^verbatim>\<open>Enter\<close>
  (\<^verbatim>\<open>"Enter"\<close> and 13) while its \<^verbatim>\<open>code\<close> stays \<^verbatim>\<open>NumpadEnter\<close>.
\<close>

theorem numpad_keys_location_3:
  "(prefix ''Numpad'' name \<and> resolveKeyDescriptor name = Some d \<longrightarrow> location d = 3)
   \<and> list_all (\<lambda>n. map_option location (resolveKeyDescriptor n) = Some 3) numpad_names
   \<and> resolveKeyDescriptor ''NumpadEnter'' =
         Some \<lparr>code = ''NumpadEnter'', key = ''Enter'', keyCode = 13, location = 3\<rparr>
   \<and> resolveKeyDescriptor ''Enter'' =
         Some \<lparr>code = ''Enter'', key = ''Enter'', keyCode = 13, location = 0\<rparr>
   \<and> map_option key (resolveKeyDescriptor ''NumpadEnter'') =
       map_option key (resolveKeyDescriptor ''Enter'')
   \<and> map_option keyCode (resolveKeyDescriptor ''NumpadEnter'') =
       map_option keyCode (resolveKeyDescriptor ''Enter'')"
proof -
  have table: "list_all (\<lambda>n. map_option location (resolveKeyDescriptor n) = Some 3) numpad_names"
    by code_simp
  have enter: "resolveKeyDescriptor ''NumpadEnter'' =
         Some \<lparr>code = ''NumpadEnter'', key = ''Enter'', keyCode = 13, location = 3\<rparr>"
    "resolveKeyDescriptor ''Enter'' =
         Some \<lparr>code = ''Enter'', key = ''Enter'', keyCode = 13, location = 0\<rparr>"
    by code_simp+
  show ?thesis
    using table enter numpad_location_3[of name d] by simp
qed

theorem numpad_keys_location_3_witness:
  "prefix ''Numpad'' ''Numpad5''
   \<and> resolveKeyDescriptor ''Numpad5'' =
         Some \<lparr>code = ''Numpad5'', key = ''5'', keyCode = 101, location = 3\<rparr>
   \<and> location \<lparr>code = ''Numpad5'', key = ''5'', keyCode = 101, location = 3\<rparr> = 3"
proof -
  have r: "resolveKeyDescriptor ''Numpad5'' =
         Some \<lparr>code = ''Numpad5'', key = ''5'', keyCode = 101, location = 3\<rparr>"
    by code_simp
  have p: "prefix ''Numpad'' ''Numpad5''"
    by simp
  show ?thesis
    using p r numpad_keys_location_3[of "''Numpad5''"
        "\<lparr>code = ''Numpad5'', key = ''5'', keyCode = 101, location = 3\<rparr>"]
    by blast
qed

end
